theory Spec2Isabelle
  imports Main
begin

section \<open>NoiseBox: audio device snapshots (medialogic/controller.py)\<close>

text \<open>
  Python exceptions are values. \<open>KeyError\<close> is what a dict lookup of a missing key
  raises, \<open>AttributeError\<close> what a method call on an object of the wrong class raises,
  \<open>TypeError\<close> what indexing a list with a string raises.
\<close>

datatype error =
  NotFoundException | UseAfterFreeException | KeyError | AttributeError | TypeError

type_synonym addr = nat

subsection \<open>The native side\<close>

text \<open>
  VLC hands out the devices as a singly linked list of structs in native memory; a
  pointer is an address or \<open>None\<close> (NULL). Native memory is total: every address
  holds some struct, as raw memory does. The text fields are modelled as already decoded
  strings (the bytes are taken to be valid UTF-8).
\<close>

record audio_output_device =
  "next" :: "addr option"
  device :: string
  description :: string

type_synonym memory = "addr \<Rightarrow> audio_output_device"

text \<open>The two native calls the module makes are recorded in the order they happen.\<close>

datatype native_call = Enum "addr option" | Release "addr option"

record native =
  mem :: memory
  calls :: "native_call list"

text \<open>
  \<open>vlc.libvlc_audio_output_device_enum\<close>: the platform's answer (head pointer and the
  memory holding the new list) is a parameter.
\<close>

definition libvlc_audio_output_device_enum ::
  "addr option \<times> memory \<Rightarrow> native \<Rightarrow> addr option \<times> native" where
  "libvlc_audio_output_device_enum snap w =
     (fst snap, \<lparr>mem = snd snap, calls = calls w @ [Enum (fst snap)]\<rparr>)"

definition libvlc_audio_output_device_list_release :: "addr option \<Rightarrow> native \<Rightarrow> native" where
  "libvlc_audio_output_device_list_release p w = w\<lparr>calls := calls w @ [Release p]\<rparr>"

text \<open>
  A well-formed snapshot: from pointer \<open>p\<close> the \<open>next\<close> fields visit exactly the
  addresses \<open>ps\<close> and then reach NULL.
\<close>

fun linked :: "memory \<Rightarrow> addr option \<Rightarrow> addr list \<Rightarrow> bool" where
  "linked m p [] = (p = None)"
| "linked m p (a # as) = (p = Some a \<and> linked m (next (m a)) as)"

text \<open>Handles that were enumerated and not yet released, after a sequence of native calls.\<close>

fun live_step :: "addr option list \<Rightarrow> native_call \<Rightarrow> addr option list" where
  "live_step acc (Enum p) = acc @ [p]"
| "live_step acc (Release p) = remove1 p acc"

definition live :: "native_call list \<Rightarrow> addr option list" where
  "live cs = foldl live_step [] cs"

subsection \<open>AudioDevice\<close>

text \<open>\<open>AudioDevice.__init__\<close> keeps \<open>audio_output_device.contents\<close>: a reference to the struct.\<close>

datatype audio_device = AudioDevice (contents: addr)

definition AudioDevice_str :: "memory \<Rightarrow> audio_device \<Rightarrow> string" where
  "AudioDevice_str m d = description (m (contents d))"

subsection \<open>AudioDevices\<close>

definition FREED_ERROR_STRING :: string where
  "FREED_ERROR_STRING = ''Invalid object - already freed.''"

text \<open>
  \<open>user_device_map\<close> is a dict whose insertion order is observable through
  \<open>items()\<close>, so it is an association list; \<open>device_name_map\<close> is only looked up.
\<close>

record audio_devices =
  device_list_ptr :: "addr option"
  user_device_map :: "(int \<times> audio_device) list"
  device_name_map :: "string option \<rightharpoonup> audio_device option"
  valid :: bool

text \<open>
  \<open>_build_devices\<close>: the \<open>while cur:\<close> loop follows \<open>next\<close> pointers and need not
  terminate on a cyclic list, so not returning is the value \<open>None\<close>.
\<close>

partial_function (option) build_devices_loop ::
  "memory \<Rightarrow> addr option \<Rightarrow> audio_device list \<Rightarrow> audio_device list option" where
  "build_devices_loop m cur output =
     (case cur of
        None \<Rightarrow> Some output
      | Some a \<Rightarrow> build_devices_loop m (next (m a)) (output @ [AudioDevice a]))"

declare build_devices_loop.simps [code]

definition build_devices :: "memory \<Rightarrow> addr option \<Rightarrow> audio_device list option" where
  "build_devices m audio_output_device = build_devices_loop m audio_output_device []"

text \<open>Python's \<open>enumerate\<close>.\<close>

definition enumerate_py :: "'a list \<Rightarrow> (int \<times> 'a) list" where
  "enumerate_py xs = zip (map int [0..<length xs]) xs"

text \<open>The \<open>for device in device_list\<close> loop of \<open>__init__\<close> filling \<open>device_name_map\<close>.\<close>

fun fill_names ::
  "memory \<Rightarrow> (string option \<rightharpoonup> audio_device option) \<Rightarrow> audio_device list
     \<Rightarrow> (string option \<rightharpoonup> audio_device option)" where
  "fill_names m nm [] = nm"
| "fill_names m nm (d # ds) = fill_names m (nm(Some (device (m (contents d))) \<mapsto> Some d)) ds"

definition AudioDevices_init :: "memory \<Rightarrow> addr option \<Rightarrow> audio_devices option" where
  "AudioDevices_init m audio_device_enum =
     (case build_devices m audio_device_enum of
        None \<Rightarrow> None
      | Some device_list \<Rightarrow>
          let udm = enumerate_py device_list in
          Some \<lparr>device_list_ptr = audio_device_enum,
                user_device_map = udm,
                device_name_map = fill_names m [None \<mapsto> map_of udm 0] device_list,
                valid = True\<rparr>)"

definition free :: "audio_devices \<Rightarrow> native \<Rightarrow> audio_devices \<times> native" where
  "free self w =
     (if valid self
      then (self\<lparr>valid := False\<rparr>,
            libvlc_audio_output_device_list_release (device_list_ptr self) w)
      else (self, w))"

text \<open>\<open>n\<close> successive calls of \<open>free\<close> on the same instance.\<close>

primrec frees :: "nat \<Rightarrow> audio_devices \<times> native \<Rightarrow> audio_devices \<times> native" where
  "frees 0 s = s"
| "frees (Suc n) s = frees n (free (fst s) (snd s))"

text \<open>Python's \<open>str\<close> of an int, for the \<open>%s\<close> of the index.\<close>

fun str_nat :: "nat \<Rightarrow> string" where
  "str_nat n =
     (if n < 10 then [''0123456789'' ! n]
      else str_nat (n div 10) @ [''0123456789'' ! (n mod 10)])"

definition str_int :: "int \<Rightarrow> string" where
  "str_int i = (if i < 0 then CHR ''-'' # str_nat (nat (- i)) else str_nat (nat i))"

text \<open>Python's \<open>sep.join\<close>.\<close>

fun join :: "string \<Rightarrow> string list \<Rightarrow> string" where
  "join sep [] = []"
| "join sep [x] = x"
| "join sep (x # y # ys) = x @ sep @ join sep (y # ys)"

definition entry_line :: "memory \<Rightarrow> int \<times> audio_device \<Rightarrow> string" where
  "entry_line m entry = [CHR 0x09] @ str_int (fst entry) @ '': '' @ AudioDevice_str m (snd entry)"

definition AudioDevices_str :: "memory \<Rightarrow> audio_devices \<Rightarrow> string" where
  "AudioDevices_str m self =
     (if \<not> valid self then FREED_ERROR_STRING
      else [CHR 0x0A] @ join [CHR 0x0A] (map (entry_line m) (user_device_map self)))"

definition device_for_index :: "audio_devices \<Rightarrow> int \<Rightarrow> error + audio_device" where
  "device_for_index self index =
     (if \<not> valid self then Inl UseAfterFreeException
      else case map_of (user_device_map self) index of
             None \<Rightarrow> Inl KeyError
           | Some d \<Rightarrow> Inr d)"

definition device_from_device_name ::
  "audio_devices \<Rightarrow> string option \<Rightarrow> error + audio_device option" where
  "device_from_device_name self device_name =
     (case device_name_map self device_name of
        None \<Rightarrow> Inl KeyError
      | Some d \<Rightarrow> Inr d)"

section \<open>Media library (medialogic/media_library.py)\<close>

datatype song = Song (alias_of: string) (uri: string) (song_description: string)

text \<open>
  \<open>song_map\<close> is a dict from alias to song. \<open>playlists\<close> is meant to be a dict from
  playlist name to song aliases, and \<open>__init__\<close> makes it one, but \<open>parse_v1\<close> stores
  whatever the primitive holds under \<open>playlists\<close> and the list \<open>[]\<close> when it holds
  nothing: the attribute is a dict or a list. The file system that \<open>os.path.isfile\<close>
  reads is the parameter \<open>isfile\<close>.
\<close>

datatype playlists_value = PlaylistDict "string \<rightharpoonup> string list" | PlaylistList "string list"

record media_library =
  song_map :: "string \<rightharpoonup> song"
  playlists :: playlists_value

text \<open>\<open>MediaLibrary.__init__\<close>.\<close>

definition MediaLibrary_init :: media_library where
  "MediaLibrary_init = \<lparr>song_map = Map.empty, playlists = PlaylistDict Map.empty\<rparr>"

text \<open>\<open>name in self.playlists\<close>: a key of the dict, or an element of the list.\<close>

definition contains :: "playlists_value \<Rightarrow> string \<Rightarrow> bool" where
  "contains pl name =
     (case pl of
        PlaylistDict d \<Rightarrow> d name \<noteq> None
      | PlaylistList l \<Rightarrow> name \<in> set l)"

text \<open>
  \<open>self.playlists.keys()\<close>, as the test for membership in the view it returns: a list has
  no such method.
\<close>

definition keys :: "playlists_value \<Rightarrow> error + (string \<Rightarrow> bool)" where
  "keys pl =
     (case pl of
        PlaylistDict d \<Rightarrow> Inr (\<lambda>k. d k \<noteq> None)
      | PlaylistList l \<Rightarrow> Inl AttributeError)"

definition check_file_exists :: "(string \<Rightarrow> bool) \<Rightarrow> string \<Rightarrow> error + unit" where
  "check_file_exists isfile song_uri = (if isfile song_uri then Inr () else Inl NotFoundException)"

definition Song_init :: "(string \<Rightarrow> bool) \<Rightarrow> string \<Rightarrow> string \<Rightarrow> string \<Rightarrow> error + song" where
  "Song_init isfile a u d =
     (case check_file_exists isfile u of Inl e \<Rightarrow> Inl e | Inr _ \<Rightarrow> Inr (Song a u d))"

text \<open>
  \<open>MediaLibrary.parse_v1\<close>. The primitive is the parsed JSON object: its \<open>songs\<close> entry,
  if it has one, is taken to hold version 1.0 song primitives with their alias, uri and
  optional description (the version dispatch of \<open>Song.from_primitive\<close> is not modelled);
  its \<open>playlists\<close> entry, if it has one, is stored as it is.
\<close>

record library_primitive =
  songs_field :: "(string \<times> string \<times> string option) list option"
  playlists_field :: "playlists_value option"

fun parse_songs ::
  "(string \<Rightarrow> bool) \<Rightarrow> (string \<times> string \<times> string option) list \<Rightarrow> error + song list" where
  "parse_songs isfile [] = Inr []"
| "parse_songs isfile ((a, u, d) # ps) =
     (case Song_init isfile a u (case d of None \<Rightarrow> [] | Some t \<Rightarrow> t) of
        Inl e \<Rightarrow> Inl e
      | Inr sg \<Rightarrow> (case parse_songs isfile ps of
                    Inl e \<Rightarrow> Inl e
                  | Inr sgs \<Rightarrow> Inr (sg # sgs)))"

definition parse_v1 :: "(string \<Rightarrow> bool) \<Rightarrow> library_primitive \<Rightarrow> error + media_library" where
  "parse_v1 isfile primitive =
     (case parse_songs isfile (case songs_field primitive of None \<Rightarrow> [] | Some l \<Rightarrow> l) of
        Inl e \<Rightarrow> Inl e
      | Inr songs \<Rightarrow>
          Inr \<lparr>song_map = foldl (\<lambda>m sg. m(alias_of sg \<mapsto> sg)) Map.empty songs,
               playlists = (case playlists_field primitive of
                              None \<Rightarrow> PlaylistList []
                            | Some v \<Rightarrow> v)\<rparr>)"

definition get_song :: "(string \<Rightarrow> bool) \<Rightarrow> media_library \<Rightarrow> string \<Rightarrow> error + song" where
  "get_song isfile self song_alias =
     (case song_map self song_alias of
        None \<Rightarrow> Inl NotFoundException
      | Some s \<Rightarrow> Song_init isfile (alias_of s) (uri s) [])"

text \<open>
  \<open>get_playlist\<close>: \<open>self.playlists[playlist_name]\<close> is a lookup in the dict; on a list
  the string is no index.
\<close>

definition get_playlist :: "media_library \<Rightarrow> string \<Rightarrow> error + string list" where
  "get_playlist self playlist_name =
     (if \<not> contains (playlists self) playlist_name then Inl NotFoundException
      else case playlists self of
             PlaylistDict d \<Rightarrow>
               (case d playlist_name of None \<Rightarrow> Inl KeyError | Some l \<Rightarrow> Inr l)
           | PlaylistList l \<Rightarrow> Inl TypeError)"

text \<open>The comprehension \<open>[self.get_song(song).uri for song in ...]\<close>: the first raise ends it.\<close>

fun song_uris :: "(string \<Rightarrow> bool) \<Rightarrow> media_library \<Rightarrow> string list \<Rightarrow> error + string list" where
  "song_uris isfile self [] = Inr []"
| "song_uris isfile self (a # as) =
     (case get_song isfile self a of
        Inl e \<Rightarrow> Inl e
      | Inr s \<Rightarrow> (case song_uris isfile self as of
                   Inl e \<Rightarrow> Inl e
                 | Inr us \<Rightarrow> Inr (uri s # us)))"

text \<open>
  \<open>get\<close>: the second test evaluates \<open>self.playlists.keys()\<close> first, so on a list it
  raises before the song map is looked at.
\<close>

definition get :: "(string \<Rightarrow> bool) \<Rightarrow> media_library \<Rightarrow> string \<Rightarrow> error + string list" where
  "get isfile self name =
     (if contains (playlists self) name
      then (case get_playlist self name of
              Inl e \<Rightarrow> Inl e
            | Inr l \<Rightarrow> song_uris isfile self l)
      else (case keys (playlists self) of
              Inl e \<Rightarrow> Inl e
            | Inr ks \<Rightarrow>
                if \<not> ks name \<and> song_map self name = None
                then Inl NotFoundException
                else song_uris isfile self [name]))"

section \<open>The scheduling tree (medialogic/oracles.py)\<close>

text \<open>
  Oracles are mutable Python objects that refer to one another, and the controller keeps
  references into the tree it hands to the player. The object store is a list; an address
  is an index into it and a new object is appended, so its address is fresh.
\<close>

text \<open>
  Modelled from the spec: the module \<open>medialogic/oracles.py\<close> (the oracle classes, their
  constructors and their methods) is missing. The five variants carry the state section 3
  of the specification gives them: a playlist its items and cursor; a repeating source its
  items, cursor and remaining-repeat counter (\<open>None\<close> for unlimited); a chain its
  children and current index; a switch its active source, absent initially; the interrupt
  source its FIFO queue of pending items and its fallback.
\<close>

datatype oracle_obj =
    PlaylistOracle "string list" nat
  | RepeatingOracle "string list" nat "int option"
  | ChainOracle "addr list" nat
  | SwitchOracle "addr option"
  | InterruptOracle "string list" addr

type_synonym heap = "oracle_obj list"

definition lookup :: "heap \<Rightarrow> addr \<Rightarrow> oracle_obj option" where
  "lookup h a = (if a < length h then Some (h ! a) else None)"

definition new_obj :: "oracle_obj \<Rightarrow> heap \<Rightarrow> addr \<times> heap" where
  "new_obj ob h = (length h, h @ [ob])"

text \<open>
  Modelled from the spec: \<open>SwitchOracle.set_oracle\<close> is missing. "The active reference
  may be replaced wholesale at any time."
\<close>

definition set_oracle :: "addr \<Rightarrow> addr \<Rightarrow> heap \<Rightarrow> error + heap" where
  "set_oracle self target h =
     (case lookup h self of
        Some (SwitchOracle _) \<Rightarrow> Inr (h[self := SwitchOracle (Some target)])
      | _ \<Rightarrow> Inl AttributeError)"

text \<open>
  Modelled from the spec: \<open>ChainOracle.add\<close> is missing. "New children may be appended
  at the tail at any time."
\<close>

definition add :: "addr \<Rightarrow> addr \<Rightarrow> heap \<Rightarrow> error + heap" where
  "add self child h =
     (case lookup h self of
        Some (ChainOracle cs cur) \<Rightarrow> Inr (h[self := ChainOracle (cs @ [child]) cur])
      | _ \<Rightarrow> Inl AttributeError)"

text \<open>
  Modelled from the spec: \<open>InterruptOracle.clear_interrupt\<close> is missing. "A clear
  operation empties the interrupt queue without touching the fallback's state."
\<close>

definition clear_interrupt :: "addr \<Rightarrow> heap \<Rightarrow> error + heap" where
  "clear_interrupt self h =
     (case lookup h self of
        Some (InterruptOracle q fb) \<Rightarrow> Inr (h[self := InterruptOracle [] fb])
      | _ \<Rightarrow> Inl AttributeError)"

text \<open>
  Modelled from the spec: the operation that enqueues interrupt items is missing.
  "Enqueues items to be played immediately without disturbing the fallback chain"; the
  queue is FIFO, so the items go to its tail.
\<close>

definition interrupt :: "addr \<Rightarrow> string list \<Rightarrow> heap \<Rightarrow> error + heap" where
  "interrupt self items h =
     (case lookup h self of
        Some (InterruptOracle q fb) \<Rightarrow> Inr (h[self := InterruptOracle (q @ items) fb])
      | _ \<Rightarrow> Inl AttributeError)"

text \<open>
  Modelled from the spec: the \<open>advance\<close> operation of every oracle class is missing.
  It follows section 3 of the specification variant by variant. The recursion goes through
  references, which may form a cycle, so it takes fuel; the result \<open>None\<close> is "out of
  fuel" (or a reference to no object, which Python cannot have).
\<close>

fun advance :: "nat \<Rightarrow> heap \<Rightarrow> addr \<Rightarrow> (string option \<times> heap) option" where
  "advance 0 h a = None"
| "advance (Suc n) h a =
     (case lookup h a of
        None \<Rightarrow> None
      | Some (PlaylistOracle items cur) \<Rightarrow>
          if cur < length items
          then Some (Some (items ! cur), h[a := PlaylistOracle items (Suc cur)])
          else Some (None, h)
      | Some (RepeatingOracle items cur times') \<Rightarrow>
          if items = [] then Some (None, h)
          else if cur < length items
          then Some (Some (items ! cur), h[a := RepeatingOracle items (Suc cur) times'])
          else (case times' of
                  None \<Rightarrow> Some (Some (items ! 0), h[a := RepeatingOracle items 1 None])
                | Some k \<Rightarrow>
                    if 0 < k
                    then Some (Some (items ! 0), h[a := RepeatingOracle items 1 (Some (k - 1))])
                    else Some (None, h))
      | Some (ChainOracle cs cur) \<Rightarrow>
          if cur < length cs
          then (case advance n h (cs ! cur) of
                  None \<Rightarrow> None
                | Some (Some x, h') \<Rightarrow> Some (Some x, h')
                | Some (None, h') \<Rightarrow> advance n (h'[a := ChainOracle cs (Suc cur)]) a)
          else Some (None, h)
      | Some (SwitchOracle t) \<Rightarrow>
          (case t of None \<Rightarrow> Some (None, h) | Some b \<Rightarrow> advance n h b)
      | Some (InterruptOracle q fb) \<Rightarrow>
          (case q of
             x # rest \<Rightarrow> Some (Some x, h[a := InterruptOracle rest fb])
           | [] \<Rightarrow> advance n h fb))"

text \<open>\<open>k\<close> successive calls of \<open>advance\<close> on the same oracle, each with fuel \<open>n\<close>.\<close>

fun advances :: "nat \<Rightarrow> nat \<Rightarrow> heap \<Rightarrow> addr \<Rightarrow> (string option list \<times> heap) option" where
  "advances n 0 h a = Some ([], h)"
| "advances n (Suc k) h a =
     (case advance n h a of
        None \<Rightarrow> None
      | Some (x, h') \<Rightarrow>
          (case advances n k h' a of
             None \<Rightarrow> None
           | Some (xs, h'') \<Rightarrow> Some (x # xs, h'')))"

section \<open>Controller (medialogic/controller.py)\<close>

text \<open>
  Modelled from the spec: the module \<open>medialogic/player.py\<close> is missing. The player is
  opaque; what the controller does to it is the sequence of calls it receives.
  \<open>play_oracle\<close> hands it the root of the tree, \<open>next_song\<close> "signals the player to
  fetch a new item immediately".
\<close>

datatype player_call = PlayOracle addr | NextSong

type_synonym player = "player_call list"

definition play_oracle :: "addr \<Rightarrow> player \<Rightarrow> player" where
  "play_oracle root p = p @ [PlayOracle root]"

definition next_song :: "player \<Rightarrow> player" where
  "next_song p = p @ [NextSong]"

record controller =
  media_library :: media_library
  vlc_player :: player
  devices :: audio_devices
  switch_oracle :: addr
  queueing_oracle :: addr
  interrupt_oracle :: addr

text \<open>
  \<open>Controller.__init__\<close>. The result is \<open>None\<close> when building the device list does
  not return.
\<close>

fun Controller_init ::
  "media_library option \<Rightarrow> addr option \<times> memory \<Rightarrow> heap \<times> native
     \<Rightarrow> (error + controller \<times> heap \<times> native) option" where
  "Controller_init ml snap (h, w) =
     (let lib = (case ml of None \<Rightarrow> MediaLibrary_init | Some l \<Rightarrow> l);
          (p, w1) = libvlc_audio_output_device_enum snap w
      in (case AudioDevices_init (mem w1) p of
            None \<Rightarrow> None
          | Some devs \<Rightarrow>
              (let (sw, h1) = new_obj (SwitchOracle None) h;
                   (qo, h2) = new_obj (ChainOracle [] 0) h1;
                   (io, h3) = new_obj (InterruptOracle [] sw) h2
               in (case set_oracle sw qo h3 of
                     Inl e \<Rightarrow> Some (Inl e)
                   | Inr h4 \<Rightarrow>
                       Some (Inr (\<lparr>media_library = lib, vlc_player = play_oracle io [],
                                   devices = devs, switch_oracle = sw, queueing_oracle = qo,
                                   interrupt_oracle = io\<rparr>, h4, w1))))))"

text \<open>
  The methods return how they ended (an exception or \<open>None\<close>) together with the state
  they leave behind, so that what a raise leaves unchanged can be stated.
\<close>

fun play ::
  "(string \<Rightarrow> bool) \<Rightarrow> string \<Rightarrow> controller \<times> heap \<Rightarrow> (error + unit) \<times> (controller \<times> heap)" where
  "play isfile song_alias (self, h) =
     (case get isfile (media_library self) song_alias of
        Inl e \<Rightarrow> (Inl e, (self, h))
      | Inr songs \<Rightarrow>
          (let (c, h1) = new_obj (ChainOracle [] 0) h;
               self1 = self\<lparr>queueing_oracle := c\<rparr>
           in (case set_oracle (switch_oracle self1) (queueing_oracle self1) h1 of
                 Inl e \<Rightarrow> (Inl e, (self1, h1))
               | Inr h2 \<Rightarrow>
                   (let (pl, h3) = new_obj (PlaylistOracle songs 0) h2
                    in (case add (queueing_oracle self1) pl h3 of
                          Inl e \<Rightarrow> (Inl e, (self1, h3))
                        | Inr h4 \<Rightarrow>
                            (case clear_interrupt (interrupt_oracle self1) h4 of
                               Inl e \<Rightarrow> (Inl e, (self1, h4))
                             | Inr h5 \<Rightarrow>
                                 (Inr (),
                                  (self1\<lparr>vlc_player := next_song (vlc_player self1)\<rparr>, h5))))))))"

fun queue ::
  "(string \<Rightarrow> bool) \<Rightarrow> string \<Rightarrow> controller \<times> heap \<Rightarrow> (error + unit) \<times> (controller \<times> heap)" where
  "queue isfile a (self, h) =
     (case get isfile (media_library self) a of
        Inl e \<Rightarrow> (Inl e, (self, h))
      | Inr songs \<Rightarrow>
          (let (pl, h1) = new_obj (PlaylistOracle songs 0) h
           in (case add (queueing_oracle self) pl h1 of
                 Inl e \<Rightarrow> (Inl e, (self, h1))
               | Inr h2 \<Rightarrow> (Inr (), (self, h2)))))"

fun queue_repeat ::
  "(string \<Rightarrow> bool) \<Rightarrow> string \<Rightarrow> int option \<Rightarrow> controller \<times> heap
     \<Rightarrow> (error + unit) \<times> (controller \<times> heap)" where
  "queue_repeat isfile a times' (self, h) =
     (case get isfile (media_library self) a of
        Inl e \<Rightarrow> (Inl e, (self, h))
      | Inr songs \<Rightarrow>
          (let (rp, h1) = new_obj (RepeatingOracle songs 0 times') h
           in (case add (queueing_oracle self) rp h1 of
                 Inl e \<Rightarrow> (Inl e, (self, h1))
               | Inr h2 \<Rightarrow> (Inr (), (self, h2)))))"

text \<open>
  \<open>Controller.list_devices\<close>: free the old snapshot, enumerate, build the new one, render
  it. The result is \<open>None\<close> when building the new device list does not return.
\<close>

fun list_devices ::
  "addr option \<times> memory \<Rightarrow> controller \<times> native \<Rightarrow> (string \<times> controller \<times> native) option" where
  "list_devices snap (self, w) =
     (let (old, w1) = free (devices self) w;
          (p, w2) = libvlc_audio_output_device_enum snap w1
      in (case AudioDevices_init (mem w2) p of
            None \<Rightarrow> None
          | Some devs \<Rightarrow>
              Some (AudioDevices_str (mem w2) devs, self\<lparr>devices := devs\<rparr>, w2)))"

text \<open>
  The shape \<open>__init__\<close> and \<open>play\<close> set up and every method relies on: the root is an
  interrupt oracle whose fallback is the switch, the switch targets the chain that
  \<open>queueing_oracle\<close> refers to.
\<close>

fun tree_ok :: "controller \<times> heap \<Rightarrow> bool" where
  "tree_ok (self, h) =
     ((case lookup h (interrupt_oracle self) of
         Some (InterruptOracle q fb) \<Rightarrow> fb = switch_oracle self
       | _ \<Rightarrow> False) \<and>
      (case lookup h (switch_oracle self) of
         Some (SwitchOracle t) \<Rightarrow> t = Some (queueing_oracle self)
       | _ \<Rightarrow> False) \<and>
      (case lookup h (queueing_oracle self) of
         Some (ChainOracle cs cur) \<Rightarrow> True
       | _ \<Rightarrow> False))"

section \<open>The scenarios of the specification as concrete states\<close>

text \<open>A native snapshot of three devices, at the addresses 10, 20 and 30.\<close>

definition snapshot3 :: memory where
  "snapshot3 =
     (\<lambda>a. if a = 10 then \<lparr>next = Some 20, device = ''hw0'', description = ''Speakers''\<rparr>
          else if a = 20 then \<lparr>next = Some 30, device = ''hw1'', description = ''Headphones''\<rparr>
          else \<lparr>next = None, device = ''hw2'', description = ''HDMI''\<rparr>)"

definition native3 :: native where
  "native3 = \<lparr>mem = snapshot3, calls = [Enum (Some 10)]\<rparr>"

text \<open>What \<open>AudioDevices\<close> builds from an empty enumeration (a NULL pointer).\<close>

definition no_devices :: audio_devices where
  "no_devices = \<lparr>device_list_ptr = None, user_device_map = [],
                  device_name_map = [None \<mapsto> None], valid = True\<rparr>"

definition native0 :: native where
  "native0 = \<lparr>mem = snapshot3, calls = [Enum None]\<rparr>"

definition library2 :: media_library where
  "library2 =
     \<lparr>song_map = [''s1'' \<mapsto> Song ''s1'' ''/music/s1.mp3'' ''first'',
                  ''s2'' \<mapsto> Song ''s2'' ''/music/s2.mp3'' ''second''],
      playlists = PlaylistDict [''mix'' \<mapsto> [''s1'', ''s2'']]\<rparr>"

text \<open>The primitive of a library file that has a version and nothing else.\<close>

definition bare_primitive :: library_primitive where
  "bare_primitive = \<lparr>songs_field = None, playlists_field = None\<rparr>"

definition bare_library :: media_library where
  "bare_library = \<lparr>song_map = Map.empty, playlists = PlaylistList []\<rparr>"

text \<open>The controller and the object store as \<open>__init__\<close> leaves them on an empty store.\<close>

definition controller0 :: controller where
  "controller0 =
     \<lparr>media_library = library2, vlc_player = [PlayOracle 2], devices = no_devices,
      switch_oracle = 0, queueing_oracle = 1, interrupt_oracle = 2\<rparr>"

definition heap0 :: heap where
  "heap0 = [SwitchOracle (Some 1), ChainOracle [] 0, InterruptOracle [] 0]"

section \<open>Auxiliary facts\<close>

subsection \<open>Device snapshots\<close>

lemma build_devices_loop_linked:
  "linked m p ps \<Longrightarrow> build_devices_loop m p acc = Some (acc @ map AudioDevice ps)"
proof (induction ps arbitrary: p acc)
  case Nil
  then show ?case by (subst build_devices_loop.simps) simp
next
  case (Cons a as)
  then have p: "p = Some a" and rest: "linked m (next (m a)) as" by simp_all
  show ?case
    by (subst build_devices_loop.simps) (simp add: p Cons.IH [OF rest])
qed

lemma build_devices_linked:
  "linked m p ps \<Longrightarrow> build_devices m p = Some (map AudioDevice ps)"
  by (simp add: build_devices_def build_devices_loop_linked)

lemma AudioDevices_init_linked:
  "linked m p ps \<Longrightarrow>
   AudioDevices_init m p =
     Some \<lparr>device_list_ptr = p,
           user_device_map = enumerate_py (map AudioDevice ps),
           device_name_map =
             fill_names m [None \<mapsto> map_of (enumerate_py (map AudioDevice ps)) 0] (map AudioDevice ps),
           valid = True\<rparr>"
  by (simp add: AudioDevices_init_def build_devices_linked Let_def)

lemma map_of_enumerate_py:
  "map_of (enumerate_py xs) i = (if 0 \<le> i \<and> i < int (length xs) then Some (xs ! nat i) else None)"
proof (cases "0 \<le> i \<and> i < int (length xs)")
  case True
  then have n: "nat i < length xs" by (simp add: nat_less_iff)
  have d: "distinct (map int [0..<length xs])"
    by (simp add: distinct_map)
  have "map_of (zip (map int [0..<length xs]) xs) (map int [0..<length xs] ! nat i) = Some (xs ! nat i)"
    using n d by (intro map_of_zip_nth) simp_all
  with True n show ?thesis by (simp add: enumerate_py_def)
next
  case False
  then have "i \<notin> set (map int [0..<length xs])" by auto
  then have "map_of (enumerate_py xs) i = None"
    unfolding enumerate_py_def by (simp add: map_of_zip_is_None)
  with False show ?thesis by simp
qed

lemma fill_names_None: "fill_names m nm ds None = nm None"
  by (induction ds arbitrary: nm) simp_all

lemma zip_upt_nth:
  "zip (map g [0..<length xs]) xs = map (\<lambda>i. (g i, xs ! i)) [0..<length xs]"
  by (rule nth_equalityI) simp_all

lemma free_invalid: "\<not> valid self \<Longrightarrow> free self w = (self, w)"
  by (simp add: free_def)

lemma valid_free: "\<not> valid (fst (free self w))"
  by (simp add: free_def)

lemma frees_invalid: "\<not> valid (fst s) \<Longrightarrow> frees n s = s"
  by (induction n arbitrary: s) (simp_all add: free_invalid)

lemma frees_Suc: "frees (Suc n) (self, w) = free self w"
  by (simp add: frees_invalid valid_free)

lemma live_snoc: "live (cs @ [c]) = live_step (live cs) c"
  by (simp add: live_def)

lemma linked_snapshot3: "linked snapshot3 (Some 10) [10, 20, 30]"
  by (simp add: snapshot3_def)

lemma init_snapshot3:
  "AudioDevices_init snapshot3 (Some 10) =
     Some \<lparr>device_list_ptr = Some 10,
           user_device_map = enumerate_py (map AudioDevice [10, 20, 30]),
           device_name_map =
             fill_names snapshot3
               [None \<mapsto> map_of (enumerate_py (map AudioDevice [10, 20, 30])) 0]
               (map AudioDevice [10, 20, 30]),
           valid = True\<rparr>"
  by (rule AudioDevices_init_linked [OF linked_snapshot3])

lemma no_devices_fields:
  "valid no_devices" "device_list_ptr no_devices = None" "user_device_map no_devices = []"
  by (simp_all add: no_devices_def)

subsection \<open>The object store and the tree\<close>

lemma lookup_append:
  "lookup (h @ [x]) a = (if a < length h then lookup h a else if a = length h then Some x else None)"
  by (simp add: lookup_def nth_append)

lemma lookup_update:
  "lookup (h[a := x]) b = (if b < length h then (if a = b then Some x else lookup h b) else None)"
  by (simp add: lookup_def)

lemma lookup_less: "lookup h a = Some x \<Longrightarrow> a < length h"
  by (simp add: lookup_def split: if_splits)

lemma lookup_nth: "lookup h a = Some x \<Longrightarrow> h ! a = x"
  by (simp add: lookup_def split: if_splits)

lemma tree_okD:
  assumes "tree_ok (self, h)"
  obtains q cs cur where
    "lookup h (interrupt_oracle self) = Some (InterruptOracle q (switch_oracle self))"
    "lookup h (switch_oracle self) = Some (SwitchOracle (Some (queueing_oracle self)))"
    "lookup h (queueing_oracle self) = Some (ChainOracle cs cur)"
  using assms by (auto split: option.splits oracle_obj.splits)

lemma get_unknown:
  "playlists lib = PlaylistDict d \<Longrightarrow> d name = None \<Longrightarrow> song_map lib name = None \<Longrightarrow>
   get isfile lib name = Inl NotFoundException"
  by (simp add: get_def contains_def keys_def)

lemma get_playlists_list:
  "playlists lib = PlaylistList l \<Longrightarrow> name \<notin> set l \<Longrightarrow> get isfile lib name = Inl AttributeError"
  by (simp add: get_def contains_def keys_def)

text \<open>The lookup is the first statement of the three methods: a raise there changes nothing.\<close>

lemma raise_in_get_leaves_state:
  assumes "get isfile (media_library self) name = Inl e"
  shows "play isfile name (self, h) = (Inl e, (self, h)) \<and>
         queue isfile name (self, h) = (Inl e, (self, h)) \<and>
         queue_repeat isfile name times' (self, h) = (Inl e, (self, h))"
  using assms by simp

lemma unknown_name_dict_library:
  assumes "playlists (media_library self) = PlaylistDict d" and "d name = None"
    and "song_map (media_library self) name = None"
  shows "play isfile name (self, h) = (Inl NotFoundException, (self, h)) \<and>
         queue isfile name (self, h) = (Inl NotFoundException, (self, h)) \<and>
         queue_repeat isfile name times' (self, h) = (Inl NotFoundException, (self, h))"
  by (rule raise_in_get_leaves_state) (rule get_unknown [OF assms])

lemma parse_v1_bare: "parse_v1 isfile bare_primitive = Inr bare_library"
  by (simp add: parse_v1_def bare_primitive_def bare_library_def)

text \<open>What \<open>play\<close> leaves behind, step by step as the method runs.\<close>

lemma play_run:
  assumes io: "lookup h (interrupt_oracle self) = Some (InterruptOracle q (switch_oracle self))"
    and sw: "lookup h (switch_oracle self) = Some (SwitchOracle t)"
    and songs: "get isfile (media_library self) song_alias = Inr songs"
  shows "play isfile song_alias (self, h) =
           (Inr (),
            (self\<lparr>queueing_oracle := length h, vlc_player := vlc_player self @ [NextSong]\<rparr>,
             (((h @ [ChainOracle [] 0])[switch_oracle self := SwitchOracle (Some (length h))]
                 @ [PlaylistOracle songs 0])[length h := ChainOracle [Suc (length h)] 0])
               [interrupt_oracle self := InterruptOracle [] (switch_oracle self)]))"
proof -
  let ?sw = "switch_oracle self" and ?io = "interrupt_oracle self" and ?n = "length h"
  let ?h2 = "(h @ [ChainOracle [] 0])[?sw := SwitchOracle (Some ?n)]"
  let ?h4 = "(?h2 @ [PlaylistOracle songs 0])[?n := ChainOracle [Suc ?n] 0]"
  let ?h5 = "?h4[?io := InterruptOracle [] ?sw]"
  have lt: "?sw < ?n" "?io < ?n"
    using sw io by (auto dest: lookup_less)
  have ne: "?sw \<noteq> ?io"
    using sw io by auto
  have s2: "set_oracle ?sw ?n (h @ [ChainOracle [] 0]) = Inr ?h2"
    using sw lt by (simp add: set_oracle_def lookup_append)
  have s4: "add ?n (Suc ?n) (?h2 @ [PlaylistOracle songs 0]) = Inr ?h4"
    using lt by (simp add: add_def lookup_append lookup_update)
  have s5: "clear_interrupt ?io ?h4 = Inr ?h5"
    using io lt ne by (simp add: clear_interrupt_def lookup_append lookup_update)
  show ?thesis
    by (simp add: songs new_obj_def s2 s4 s5 next_song_def)
qed

lemma queue_run:
  assumes chain: "lookup h (queueing_oracle self) = Some (ChainOracle cs cur)"
    and songs: "get isfile (media_library self) a = Inr songs"
  shows "queue isfile a (self, h) =
           (Inr (), (self, (h @ [PlaylistOracle songs 0])
                             [queueing_oracle self := ChainOracle (cs @ [length h]) cur]))"
proof -
  have "queueing_oracle self < length h"
    using chain by (rule lookup_less)
  with chain show ?thesis
    by (simp add: songs new_obj_def add_def lookup_append)
qed

lemma queue_repeat_run:
  assumes chain: "lookup h (queueing_oracle self) = Some (ChainOracle cs cur)"
    and songs: "get isfile (media_library self) a = Inr songs"
  shows "queue_repeat isfile a times' (self, h) =
           (Inr (), (self, (h @ [RepeatingOracle songs 0 times'])
                             [queueing_oracle self := ChainOracle (cs @ [length h]) cur]))"
proof -
  have "queueing_oracle self < length h"
    using chain by (rule lookup_less)
  with chain show ?thesis
    by (simp add: songs new_obj_def add_def lookup_append)
qed

text \<open>\<open>__init__\<close> sets the tree up, and the queueing methods keep its shape.\<close>

lemma Controller_init_tree_ok:
  assumes "linked (snd snap) (fst snap) ps"
  shows "\<exists>self h' w'. Controller_init ml snap (h, w) = Some (Inr (self, h', w')) \<and>
           tree_ok (self, h') \<and> valid (devices self) \<and>
           live (calls w') = live (calls w) @ [device_list_ptr (devices self)]"
proof -
  obtain d where d: "AudioDevices_init (snd snap) (fst snap) = Some d"
    "valid d" "device_list_ptr d = fst snap"
    using AudioDevices_init_linked [OF assms] by simp
  show ?thesis
    by (simp add: libvlc_audio_output_device_enum_def d new_obj_def set_oracle_def
        lookup_def nth_append live_snoc)
qed

lemma tree_ok_play:
  assumes ok: "tree_ok (self, h)" and run: "play isfile a (self, h) = (Inr (), s')"
  shows "tree_ok s'"
proof -
  obtain songs where songs: "get isfile (media_library self) a = Inr songs"
    using run by (cases "get isfile (media_library self) a") auto
  from ok obtain q where
    io: "lookup h (interrupt_oracle self) = Some (InterruptOracle q (switch_oracle self))" and
    sw: "lookup h (switch_oracle self) = Some (SwitchOracle (Some (queueing_oracle self)))"
    by (rule tree_okD)
  have lt: "switch_oracle self < length h" "interrupt_oracle self < length h"
    using sw io by (auto dest: lookup_less)
  have ne: "switch_oracle self \<noteq> interrupt_oracle self"
    using sw io by auto
  from run show ?thesis
    unfolding play_run [OF io sw songs] using lt ne
    by (auto simp add: lookup_update lookup_append)
qed

lemma tree_ok_queue:
  assumes ok: "tree_ok (self, h)" and run: "queue isfile a (self, h) = (Inr (), s')"
  shows "tree_ok s'"
proof -
  obtain songs where songs: "get isfile (media_library self) a = Inr songs"
    using run by (cases "get isfile (media_library self) a") auto
  from ok obtain q cs cur where
    io: "lookup h (interrupt_oracle self) = Some (InterruptOracle q (switch_oracle self))" and
    sw: "lookup h (switch_oracle self) = Some (SwitchOracle (Some (queueing_oracle self)))" and
    chain: "lookup h (queueing_oracle self) = Some (ChainOracle cs cur)"
    by (rule tree_okD)
  have lt: "queueing_oracle self < length h" "switch_oracle self < length h"
    "interrupt_oracle self < length h"
    using chain sw io by (auto dest: lookup_less)
  have ne: "switch_oracle self \<noteq> queueing_oracle self"
    "interrupt_oracle self \<noteq> queueing_oracle self"
    using chain sw io by auto
  from run show ?thesis
    unfolding queue_run [OF chain songs] using lt ne sw io
    by (auto simp add: lookup_update lookup_append)
qed

lemma tree_ok_queue_repeat:
  assumes ok: "tree_ok (self, h)" and run: "queue_repeat isfile a times' (self, h) = (Inr (), s')"
  shows "tree_ok s'"
proof -
  obtain songs where songs: "get isfile (media_library self) a = Inr songs"
    using run by (cases "get isfile (media_library self) a") auto
  from ok obtain q cs cur where
    io: "lookup h (interrupt_oracle self) = Some (InterruptOracle q (switch_oracle self))" and
    sw: "lookup h (switch_oracle self) = Some (SwitchOracle (Some (queueing_oracle self)))" and
    chain: "lookup h (queueing_oracle self) = Some (ChainOracle cs cur)"
    by (rule tree_okD)
  have lt: "queueing_oracle self < length h" "switch_oracle self < length h"
    "interrupt_oracle self < length h"
    using chain sw io by (auto dest: lookup_less)
  have ne: "switch_oracle self \<noteq> queueing_oracle self"
    "interrupt_oracle self \<noteq> queueing_oracle self"
    using chain sw io by auto
  from run show ?thesis
    unfolding queue_repeat_run [OF chain songs] using lt ne sw io
    by (auto simp add: lookup_update lookup_append)
qed

text \<open>The root hands out pending interrupt items front to back.\<close>

lemma advance_pending:
  "lookup h root = Some (InterruptOracle (x # q) fb) \<Longrightarrow>
   advance (Suc n) h root = Some (Some x, h[root := InterruptOracle q fb])"
  by simp

lemma advances_drain:
  "lookup h root = Some (InterruptOracle q fb) \<Longrightarrow>
   advances (Suc n) (length q) h root = Some (map Some q, h[root := InterruptOracle [] fb])"
proof (induction q arbitrary: h)
  case Nil
  then have "h[root := InterruptOracle [] fb] = h"
    by (metis list_update_id lookup_nth)
  then show ?case by simp
next
  case (Cons x q)
  let ?h = "h[root := InterruptOracle q fb]"
  have lt: "root < length h" using Cons.prems by (rule lookup_less)
  then have "lookup ?h root = Some (InterruptOracle q fb)"
    by (simp add: lookup_update)
  from Cons.IH [OF this] have "advances (Suc n) (length q) ?h root =
      Some (map Some q, h[root := InterruptOracle [] fb])"
    by simp
  then show ?case
    using Cons.prems by (simp del: advance.simps add: advance_pending)
qed

subsection \<open>The concrete states\<close>

lemma controller0_fields:
  "media_library controller0 = library2" "vlc_player controller0 = [PlayOracle 2]"
  "switch_oracle controller0 = 0" "queueing_oracle controller0 = 1"
  "interrupt_oracle controller0 = 2" "devices controller0 = no_devices"
  by (simp_all add: controller0_def)

lemma heap0_lookup:
  "length heap0 = 3" "lookup heap0 0 = Some (SwitchOracle (Some 1))"
  "lookup heap0 1 = Some (ChainOracle [] 0)" "lookup heap0 2 = Some (InterruptOracle [] 0)"
  by (simp_all add: heap0_def lookup_def)

lemma tree_ok0: "tree_ok (controller0, heap0)"
  by (simp add: controller0_def heap0_def lookup_def)

lemma get_mix: "get (\<lambda>u. True) library2 ''mix'' = Inr [''/music/s1.mp3'', ''/music/s2.mp3'']"
  by (simp add: get_def get_playlist_def get_song_def Song_init_def check_file_exists_def
      library2_def contains_def)

lemma get_s1: "get (\<lambda>u. True) library2 ''s1'' = Inr [''/music/s1.mp3'']"
  by (simp add: get_def get_song_def Song_init_def check_file_exists_def library2_def
      contains_def keys_def)

section \<open>The claims\<close>

text \<open>
  Claim C1. For an alias that the media library resolves to \<open>songs\<close>, \<open>Controller.play\<close>
  returns normally and is a destructive reset: the chain it installs is a new object (its
  address, \<open>length h\<close>, is not one of the store before the call) holding exactly one
  child, a new \<open>PlaylistOracle songs\<close> with its cursor at 0; the switch targets that
  chain and \<open>queueing_oracle\<close> refers to it; the root has no pending interrupt item and
  keeps its fallback; the player receives \<open>next_song\<close>; every other object is untouched.
\<close>

theorem play_is_destructive_reset:
  assumes ok: "tree_ok (self, h)"
    and songs: "get isfile (media_library self) song_alias = Inr songs"
  shows "\<exists>h'. play isfile song_alias (self, h) =
               (Inr (), (self\<lparr>queueing_oracle := length h,
                              vlc_player := vlc_player self @ [NextSong]\<rparr>, h')) \<and>
           length h' = length h + 2 \<and>
           lookup h' (switch_oracle self) = Some (SwitchOracle (Some (length h))) \<and>
           lookup h' (length h) = Some (ChainOracle [Suc (length h)] 0) \<and>
           lookup h' (Suc (length h)) = Some (PlaylistOracle songs 0) \<and>
           lookup h' (interrupt_oracle self) = Some (InterruptOracle [] (switch_oracle self)) \<and>
           (\<forall>b. b < length h \<and> b \<noteq> switch_oracle self \<and> b \<noteq> interrupt_oracle self \<longrightarrow>
                lookup h' b = lookup h b)"
proof -
  from ok obtain q where
    io: "lookup h (interrupt_oracle self) = Some (InterruptOracle q (switch_oracle self))" and
    sw: "lookup h (switch_oracle self) = Some (SwitchOracle (Some (queueing_oracle self)))"
    by (rule tree_okD)
  have lt: "switch_oracle self < length h" "interrupt_oracle self < length h"
    using sw io by (auto dest: lookup_less)
  have ne: "switch_oracle self \<noteq> interrupt_oracle self"
    using sw io by auto
  let ?h' = "(((h @ [ChainOracle [] 0])[switch_oracle self := SwitchOracle (Some (length h))]
                 @ [PlaylistOracle songs 0])[length h := ChainOracle [Suc (length h)] 0])
               [interrupt_oracle self := InterruptOracle [] (switch_oracle self)]"
  show ?thesis
    unfolding play_run [OF io sw songs] using lt ne
    by (intro exI [of _ ?h']) (simp add: lookup_update lookup_append)
qed

theorem play_is_destructive_reset_witness:
  "tree_ok (controller0, heap0) \<and>
   get (\<lambda>u. True) library2 ''mix'' = Inr [''/music/s1.mp3'', ''/music/s2.mp3''] \<and>
   (\<exists>h'. play (\<lambda>u. True) ''mix'' (controller0, heap0) =
           (Inr (), (controller0\<lparr>queueing_oracle := 3,
                                 vlc_player := [PlayOracle 2, NextSong]\<rparr>, h')) \<and>
         length h' = 5 \<and>
         lookup h' 0 = Some (SwitchOracle (Some 3)) \<and>
         lookup h' 3 = Some (ChainOracle [4] 0) \<and>
         lookup h' 4 = Some (PlaylistOracle [''/music/s1.mp3'', ''/music/s2.mp3''] 0) \<and>
         lookup h' 2 = Some (InterruptOracle [] 0) \<and>
         lookup h' 1 = Some (ChainOracle [] 0))"
proof -
  have g: "get (\<lambda>u. True) (media_library controller0) ''mix'' =
             Inr [''/music/s1.mp3'', ''/music/s2.mp3'']"
    by (simp add: controller0_fields get_mix)
  from play_is_destructive_reset [OF tree_ok0 g, unfolded controller0_fields heap0_lookup]
  obtain h' where
    run: "play (\<lambda>u. True) ''mix'' (controller0, heap0) =
            (Inr (), (controller0\<lparr>queueing_oracle := 3,
                                  vlc_player := [PlayOracle 2] @ [NextSong]\<rparr>, h'))" and
    l: "length h' = 3 + 2" "lookup h' 0 = Some (SwitchOracle (Some 3))"
       "lookup h' 3 = Some (ChainOracle [Suc 3] 0)"
       "lookup h' (Suc 3) = Some (PlaylistOracle [''/music/s1.mp3'', ''/music/s2.mp3''] 0)"
       "lookup h' 2 = Some (InterruptOracle [] 0)" and
    rest: "\<forall>b. b < 3 \<and> b \<noteq> 0 \<and> b \<noteq> 2 \<longrightarrow> lookup h' b = lookup heap0 b"
    by blast
  from rest have "lookup h' 1 = lookup heap0 1" by simp
  then have l1: "lookup h' 1 = Some (ChainOracle [] 0)" by (simp only: heap0_lookup)
  have "\<exists>h'. play (\<lambda>u. True) ''mix'' (controller0, heap0) =
           (Inr (), (controller0\<lparr>queueing_oracle := 3,
                                 vlc_player := [PlayOracle 2, NextSong]\<rparr>, h')) \<and>
         length h' = 5 \<and>
         lookup h' 0 = Some (SwitchOracle (Some 3)) \<and>
         lookup h' 3 = Some (ChainOracle [4] 0) \<and>
         lookup h' 4 = Some (PlaylistOracle [''/music/s1.mp3'', ''/music/s2.mp3''] 0) \<and>
         lookup h' 2 = Some (InterruptOracle [] 0) \<and>
         lookup h' 1 = Some (ChainOracle [] 0)"
    using l l1 by (intro exI [of _ h']) (simp add: run del: play.simps)
  with tree_ok0 get_mix show ?thesis by blast
qed

text \<open>
  Claim C2. Whatever the rest of the store (the fallback and everything below it) looks
  like, a root with a pending interrupt item returns the front item and leaves the rest
  pending; after \<open>interrupt items\<close> the root returns everything pending, the earlier items
  first and then \<open>items\<close>, in the order they were enqueued, and no object but the root has
  changed; in particular, with nothing pending before, \<open>interrupt [a, b]\<close> makes the next
  two calls of \<open>advance\<close> return \<open>a\<close> and then \<open>b\<close>. One unit of fuel is enough.
\<close>

theorem interrupts_first_fifo:
  assumes root: "lookup h root = Some (InterruptOracle q fb)"
  shows "(\<forall>x q'. q = x # q' \<longrightarrow>
            advance (Suc n) h root = Some (Some x, h[root := InterruptOracle q' fb])) \<and>
         (\<exists>h1. interrupt root items h = Inr h1 \<and>
            advances (Suc n) (length (q @ items)) h1 root =
              Some (map Some (q @ items), h[root := InterruptOracle [] fb])) \<and>
         (q = [] \<longrightarrow>
            (\<exists>h1 h2. interrupt root [a, b] h = Inr h1 \<and>
               advance (Suc n) h1 root = Some (Some a, h2) \<and>
               advance (Suc n) h2 root = Some (Some b, h[root := InterruptOracle [] fb])))"
proof (intro conjI allI impI)
  fix x q' assume "q = x # q'"
  with root show "advance (Suc n) h root = Some (Some x, h[root := InterruptOracle q' fb])"
    by (simp del: advance.simps add: advance_pending)
next
  have lt: "root < length h" using root by (rule lookup_less)
  let ?h1 = "h[root := InterruptOracle (q @ items) fb]"
  have "lookup ?h1 root = Some (InterruptOracle (q @ items) fb)"
    using lt by (simp add: lookup_update)
  from advances_drain [OF this, of n]
  have "advances (Suc n) (length (q @ items)) ?h1 root =
          Some (map Some (q @ items), h[root := InterruptOracle [] fb])"
    by simp
  moreover have "interrupt root items h = Inr ?h1"
    using root by (simp add: interrupt_def)
  ultimately show "\<exists>h1. interrupt root items h = Inr h1 \<and>
            advances (Suc n) (length (q @ items)) h1 root =
              Some (map Some (q @ items), h[root := InterruptOracle [] fb])"
    by simp
next
  assume e: "q = []"
  have lt: "root < length h" using root by (rule lookup_less)
  let ?h1 = "h[root := InterruptOracle [a, b] fb]"
  let ?h2 = "h[root := InterruptOracle [b] fb]"
  have i: "interrupt root [a, b] h = Inr ?h1"
    using root e by (simp add: interrupt_def)
  have "lookup ?h1 root = Some (InterruptOracle [a, b] fb)"
    using lt by (simp add: lookup_update)
  from advance_pending [OF this, of n]
  have a1: "advance (Suc n) ?h1 root = Some (Some a, ?h2)" by simp
  have "lookup ?h2 root = Some (InterruptOracle [b] fb)"
    using lt by (simp add: lookup_update)
  from advance_pending [OF this, of n]
  have a2: "advance (Suc n) ?h2 root = Some (Some b, h[root := InterruptOracle [] fb])" by simp
  from i a1 a2 show "\<exists>h1 h2. interrupt root [a, b] h = Inr h1 \<and>
               advance (Suc n) h1 root = Some (Some a, h2) \<and>
               advance (Suc n) h2 root = Some (Some b, h[root := InterruptOracle [] fb])"
    by blast
qed

theorem interrupts_first_fifo_witness:
  "lookup heap0 2 = Some (InterruptOracle [] 0) \<and>
   (\<exists>h1 h2. interrupt 2 [''a'', ''b''] heap0 = Inr h1 \<and>
      advance 1 h1 2 = Some (Some ''a'', h2) \<and>
      advance 1 h2 2 = Some (Some ''b'', heap0))"
proof -
  have r: "lookup heap0 2 = Some (InterruptOracle [] 0)"
    by (simp add: heap0_lookup)
  have e: "heap0[2 := InterruptOracle [] 0] = heap0"
    by (simp add: heap0_def)
  from interrupts_first_fifo [OF r, of 0 "[]" "''a''" "''b''"] r e show ?thesis
    by (simp del: advance.simps)
qed

text \<open>
  Claim C3, as the code has it. Once \<open>free\<close> has been called (any number of times, on an
  instance in any state), \<open>device_for_index\<close> raises \<open>UseAfterFreeException\<close> for every
  index, and the rendered listing raises nothing: it is the fixed text
  \<open>Invalid object - already freed.\<close> and shows no device.
\<close>

theorem accessors_after_free:
  "device_for_index (fst (frees (Suc n) (self, w))) index = Inl UseAfterFreeException \<and>
   AudioDevices_str m (fst (frees (Suc n) (self, w))) = FREED_ERROR_STRING"
  by (simp only: frees_Suc) (simp add: device_for_index_def AudioDevices_str_def valid_free)

text \<open>
  Claim C3 as stated fails: on the freed snapshot of three devices, \<open>device_from_device_name\<close>
  returns the default device and the rendered listing returns a string; neither raises.
\<close>

theorem accessors_after_free_counterexample:
  "map_option (\<lambda>self. device_from_device_name (fst (free self native3)) None)
     (AudioDevices_init snapshot3 (Some 10)) = Some (Inr (Some (AudioDevice 10))) \<and>
   map_option (\<lambda>self. AudioDevices_str snapshot3 (fst (free self native3)))
     (AudioDevices_init snapshot3 (Some 10)) = Some ''Invalid object - already freed.''"
  by (simp add: init_snapshot3 free_def device_from_device_name_def fill_names_None
      map_of_enumerate_py AudioDevices_str_def FREED_ERROR_STRING_def)

text \<open>
  Claim C4. For an alias that resolves to \<open>songs\<close>, \<open>Controller.queue\<close> returns normally,
  leaves every attribute of the controller (and so the player) as it was, creates one new
  \<open>PlaylistOracle songs\<close> and appends it at the tail of the chain the switch targets; the
  chain's earlier children and cursor, the switch, the root with its pending interrupt
  items and every other object are unchanged.
\<close>

theorem queue_appends_to_active_chain:
  assumes ok: "tree_ok (self, h)"
    and songs: "get isfile (media_library self) a = Inr songs"
    and chain: "lookup h (queueing_oracle self) = Some (ChainOracle cs cur)"
  shows "\<exists>h'. queue isfile a (self, h) = (Inr (), (self, h')) \<and>
           length h' = Suc (length h) \<and>
           lookup h' (length h) = Some (PlaylistOracle songs 0) \<and>
           lookup h' (queueing_oracle self) = Some (ChainOracle (cs @ [length h]) cur) \<and>
           lookup h' (switch_oracle self) = Some (SwitchOracle (Some (queueing_oracle self))) \<and>
           lookup h' (interrupt_oracle self) = lookup h (interrupt_oracle self) \<and>
           (\<forall>b. b < length h \<and> b \<noteq> queueing_oracle self \<longrightarrow> lookup h' b = lookup h b)"
proof -
  from ok obtain q where
    io: "lookup h (interrupt_oracle self) = Some (InterruptOracle q (switch_oracle self))" and
    sw: "lookup h (switch_oracle self) = Some (SwitchOracle (Some (queueing_oracle self)))"
    by (rule tree_okD)
  have lt: "queueing_oracle self < length h" "switch_oracle self < length h"
    "interrupt_oracle self < length h"
    using chain sw io by (auto dest: lookup_less)
  have ne: "switch_oracle self \<noteq> queueing_oracle self"
    "interrupt_oracle self \<noteq> queueing_oracle self"
    using chain sw io by auto
  let ?h' = "(h @ [PlaylistOracle songs 0])
               [queueing_oracle self := ChainOracle (cs @ [length h]) cur]"
  show ?thesis
    unfolding queue_run [OF chain songs] using lt ne sw io
    by (intro exI [of _ ?h']) (simp add: lookup_update lookup_append)
qed

theorem queue_appends_to_active_chain_witness:
  "tree_ok (controller0, heap0) \<and>
   get (\<lambda>u. True) library2 ''s1'' = Inr [''/music/s1.mp3''] \<and>
   lookup heap0 1 = Some (ChainOracle [] 0) \<and>
   (\<exists>h'. queue (\<lambda>u. True) ''s1'' (controller0, heap0) = (Inr (), (controller0, h')) \<and>
         length h' = 4 \<and>
         lookup h' 3 = Some (PlaylistOracle [''/music/s1.mp3''] 0) \<and>
         lookup h' 1 = Some (ChainOracle [3] 0) \<and>
         lookup h' 0 = Some (SwitchOracle (Some 1)) \<and>
         lookup h' 2 = Some (InterruptOracle [] 0))"
proof -
  have g: "get (\<lambda>u. True) (media_library controller0) ''s1'' = Inr [''/music/s1.mp3'']"
    by (simp add: controller0_fields get_s1)
  have c: "lookup heap0 (queueing_oracle controller0) = Some (ChainOracle [] 0)"
    unfolding controller0_fields by (rule heap0_lookup)
  from queue_appends_to_active_chain [OF tree_ok0 g c, unfolded controller0_fields heap0_lookup]
  obtain h' where
    run: "queue (\<lambda>u. True) ''s1'' (controller0, heap0) = (Inr (), (controller0, h'))" and
    l: "length h' = Suc 3" "lookup h' 3 = Some (PlaylistOracle [''/music/s1.mp3''] 0)"
       "lookup h' 1 = Some (ChainOracle ([] @ [3]) 0)"
       "lookup h' 0 = Some (SwitchOracle (Some 1))"
       "lookup h' 2 = Some (InterruptOracle [] 0)"
    by blast
  have "\<exists>h'. queue (\<lambda>u. True) ''s1'' (controller0, heap0) = (Inr (), (controller0, h')) \<and>
         length h' = 4 \<and>
         lookup h' 3 = Some (PlaylistOracle [''/music/s1.mp3''] 0) \<and>
         lookup h' 1 = Some (ChainOracle [3] 0) \<and>
         lookup h' 0 = Some (SwitchOracle (Some 1)) \<and>
         lookup h' 2 = Some (InterruptOracle [] 0)"
    using l by (intro exI [of _ h']) (simp add: run del: queue.simps)
  with tree_ok0 get_s1 heap0_lookup(3) show ?thesis by blast
qed

text \<open>
  Claim C5. Built from a native list of the nodes \<open>ps\<close>, the instance exists and is valid,
  and \<open>device_for_index i\<close> returns the device of the \<open>i\<close>-th node in traversal order when
  \<open>0 \<le> i < length ps\<close> and raises \<open>KeyError\<close> for every other index, negative ones too.
\<close>

theorem device_for_index_linked:
  assumes "linked m p ps"
  shows "\<exists>self. AudioDevices_init m p = Some self \<and> valid self \<and>
           device_for_index self i =
             (if 0 \<le> i \<and> i < int (length ps) then Inr (AudioDevice (ps ! nat i))
              else Inl KeyError)"
  using assms
  by (simp add: AudioDevices_init_linked device_for_index_def map_of_enumerate_py nat_less_iff)

theorem device_for_index_linked_witness:
  "linked snapshot3 (Some 10) [10, 20, 30] \<and>
   (\<exists>self. AudioDevices_init snapshot3 (Some 10) = Some self \<and> valid self \<and>
      device_for_index self 1 = Inr (AudioDevice 20) \<and>
      device_for_index self 3 = Inl KeyError \<and>
      device_for_index self (- 1) = Inl KeyError)"
proof -
  have a: "\<exists>self. AudioDevices_init snapshot3 (Some 10) = Some self \<and> valid self \<and>
      device_for_index self 1 = Inr (AudioDevice 20)"
    using device_for_index_linked [OF linked_snapshot3, of 1] by simp
  have b: "\<exists>self. AudioDevices_init snapshot3 (Some 10) = Some self \<and> valid self \<and>
      device_for_index self 3 = Inl KeyError"
    using device_for_index_linked [OF linked_snapshot3, of 3] by simp
  have c: "\<exists>self. AudioDevices_init snapshot3 (Some 10) = Some self \<and> valid self \<and>
      device_for_index self (- 1) = Inl KeyError"
    using device_for_index_linked [OF linked_snapshot3, of "- 1"] by simp
  from a b c linked_snapshot3 show ?thesis
    by (metis option.inject)
qed

text \<open>
  Claim C6, as the code has it. Built from a non-empty native list, the instance resolves
  the absent device name (\<open>None\<close>) to the default entry, and that entry is the device at
  index 0. (An empty string is a name like any other.)
\<close>

theorem default_device_is_index_0:
  assumes "linked m p ps" and "ps \<noteq> []"
  shows "\<exists>self. AudioDevices_init m p = Some self \<and> valid self \<and>
           device_from_device_name self None = Inr (Some (AudioDevice (hd ps))) \<and>
           device_for_index self 0 = Inr (AudioDevice (hd ps))"
  using assms
  by (simp add: AudioDevices_init_linked device_for_index_def device_from_device_name_def
      fill_names_None map_of_enumerate_py hd_conv_nth)

theorem default_device_is_index_0_witness:
  "linked snapshot3 (Some 10) [10, 20, 30] \<and>
   (\<exists>self. AudioDevices_init snapshot3 (Some 10) = Some self \<and> valid self \<and>
      device_from_device_name self None = Inr (Some (AudioDevice 10)) \<and>
      device_for_index self 0 = Inr (AudioDevice 10))"
  using default_device_is_index_0 [OF linked_snapshot3] linked_snapshot3
  by simp

text \<open>
  Claim C6 as stated fails for the empty name: on the snapshot of three devices, none of
  which is named by the empty string, looking the empty string up raises \<open>KeyError\<close>.
\<close>

theorem empty_name_counterexample:
  "map_option (\<lambda>self. device_from_device_name self (Some []))
     (AudioDevices_init snapshot3 (Some 10)) = Some (Inl KeyError)"
  by (simp only: init_snapshot3) (simp add: device_from_device_name_def snapshot3_def)

text \<open>
  Claim C7. When the controller's snapshot is the only live native handle (or, already
  freed, there is none) and the platform answers with a well-formed list, \<open>list_devices\<close>
  returns; the old instance is invalid and no handle is live once \<open>free\<close> has run, the
  release call (if the old instance was still valid) comes before the enumeration call in
  the native log, and afterwards the one live handle is that of the new, valid instance.
\<close>

theorem list_devices_releases_first:
  assumes snap: "linked (snd snap) (fst snap) ps"
    and own: "live (calls w) =
                (if valid (devices self) then [device_list_ptr (devices self)] else [])"
  shows "\<exists>out self' w'. list_devices snap (self, w) = Some (out, self', w') \<and>
           \<not> valid (fst (free (devices self) w)) \<and>
           calls (snd (free (devices self) w)) =
             calls w @ (if valid (devices self)
                        then [Release (device_list_ptr (devices self))] else []) \<and>
           live (calls (snd (free (devices self) w))) = [] \<and>
           calls w' = calls (snd (free (devices self) w)) @ [Enum (fst snap)] \<and>
           valid (devices self') \<and> device_list_ptr (devices self') = fst snap \<and>
           live (calls w') = [device_list_ptr (devices self')]"
proof -
  let ?w1 = "snd (free (devices self) w)"
  have c1: "calls ?w1 =
      calls w @ (if valid (devices self) then [Release (device_list_ptr (devices self))] else [])"
    by (simp add: free_def libvlc_audio_output_device_list_release_def)
  have l1: "live (calls ?w1) = []"
    using own by (simp add: c1 live_snoc)
  obtain d where d: "AudioDevices_init (snd snap) (fst snap) = Some d"
    "valid d" "device_list_ptr d = fst snap"
    using AudioDevices_init_linked [OF snap] by simp
  let ?self' = "self\<lparr>devices := d\<rparr>"
  let ?w' = "\<lparr>mem = snd snap, calls = calls ?w1 @ [Enum (fst snap)]\<rparr>"
  have run: "list_devices snap (self, w) = Some (AudioDevices_str (snd snap) d, ?self', ?w')"
    by (simp add: libvlc_audio_output_device_enum_def d split_beta)
  have r1: "\<not> valid (fst (free (devices self) w))"
    by (rule valid_free)
  have c2: "calls ?w' = calls ?w1 @ [Enum (fst snap)]"
    by simp
  have v2: "valid (devices ?self')" and p2: "device_list_ptr (devices ?self') = fst snap"
    using d by simp_all
  have l2: "live (calls ?w') = [device_list_ptr (devices ?self')]"
    by (simp add: live_snoc l1 d)
  from run r1 c1 l1 c2 v2 p2 l2 show ?thesis
    by blast
qed

theorem list_devices_releases_first_witness:
  "linked snapshot3 (Some 10) [10, 20, 30] \<and>
   live (calls native0) = [device_list_ptr (devices controller0)] \<and>
   (\<exists>out self' w'. list_devices (Some 10, snapshot3) (controller0, native0) = Some (out, self', w') \<and>
      calls w' = [Enum None, Release None, Enum (Some 10)] \<and>
      valid (devices self') \<and> device_list_ptr (devices self') = Some 10 \<and>
      live (calls w') = [Some 10])"
proof -
  have d: "devices controller0 = no_devices" "valid no_devices" "device_list_ptr no_devices = None"
    by (simp_all add: controller0_def no_devices_def)
  have s: "linked (snd (Some 10, snapshot3)) (fst (Some 10, snapshot3)) [10, 20, 30]"
    using linked_snapshot3 by simp
  have o: "live (calls native0) =
             (if valid (devices controller0) then [device_list_ptr (devices controller0)] else [])"
    by (simp add: d live_def native0_def)
  from list_devices_releases_first [OF s o] obtain out self' w' where
    run: "list_devices (Some 10, snapshot3) (controller0, native0) = Some (out, self', w')" and
    c: "calls w' = calls (snd (free (devices controller0) native0)) @ [Enum (fst (Some 10, snapshot3))]" and
    v: "valid (devices self')" "device_list_ptr (devices self') = fst (Some 10, snapshot3)"
       "live (calls w') = [device_list_ptr (devices self')]"
    by blast
  have "calls (snd (free (devices controller0) native0)) = [Enum None, Release None]"
    by (simp add: d free_def libvlc_audio_output_device_list_release_def native0_def)
  with c have c': "calls w' = [Enum None, Release None, Enum (Some 10)]"
    by simp
  have "\<exists>out self' w'. list_devices (Some 10, snapshot3) (controller0, native0) = Some (out, self', w') \<and>
      calls w' = [Enum None, Release None, Enum (Some 10)] \<and>
      valid (devices self') \<and> device_list_ptr (devices self') = Some 10 \<and>
      live (calls w') = [Some 10]"
    using run c' v
    by (intro exI [of _ out] exI [of _ self'] exI [of _ w']) (simp del: list_devices.simps)
  moreover have "live (calls native0) = [device_list_ptr (devices controller0)]"
    by (simp add: d live_def native0_def)
  ultimately show ?thesis using linked_snapshot3 by blast
qed

text \<open>
  Claim C8. For every instance, one call of \<open>free\<close> followed by any number of further
  calls leaves the same state as the one call alone, and over \<open>n\<close> calls the native release
  is invoked once if the instance was valid and \<open>n > 0\<close>, and not at all otherwise.
\<close>

theorem free_idempotent:
  "frees (Suc n) (self, w) = free self w \<and>
   calls (snd (frees n (self, w))) =
     calls w @ (if valid self \<and> 0 < n then [Release (device_list_ptr self)] else [])"
proof -
  have "calls (snd (frees n (self, w))) =
     calls w @ (if valid self \<and> 0 < n then [Release (device_list_ptr self)] else [])"
  proof (cases n)
    case 0
    then show ?thesis by simp
  next
    case (Suc k)
    then show ?thesis
      by (simp only: frees_Suc) (simp add: free_def libvlc_audio_output_device_list_release_def)
  qed
  then show ?thesis by (simp only: frees_Suc)
qed

text \<open>
  Claim C9. Built from a native list of the nodes \<open>ps\<close>, the rendered listing is a
  newline followed by the lines \<open>TAB index: description\<close> for the indices
  \<open>0, ..., length ps - 1\<close> in that order, the line of index \<open>i\<close> showing the description
  of the \<open>i\<close>-th node of the traversal, joined by newlines.
\<close>

theorem render_listing:
  assumes "linked m p ps"
  shows "\<exists>self. AudioDevices_init m p = Some self \<and> valid self \<and>
           AudioDevices_str m self =
             [CHR 0x0A] @ join [CHR 0x0A]
               (map (\<lambda>i. [CHR 0x09] @ str_int (int i) @ '': '' @ description (m (ps ! i)))
                 [0..<length ps])"
proof -
  have "map (entry_line m) (enumerate_py (map AudioDevice ps)) =
        map (\<lambda>i. [CHR 0x09] @ str_int (int i) @ '': '' @ description (m (ps ! i))) [0..<length ps]"
    using zip_upt_nth [of int "map AudioDevice ps"]
    by (simp add: enumerate_py_def entry_line_def AudioDevice_str_def)
  then show ?thesis
    using assms by (simp add: AudioDevices_init_linked AudioDevices_str_def)
qed

theorem render_listing_witness:
  "linked snapshot3 (Some 10) [10, 20, 30] \<and>
   (\<exists>self. AudioDevices_init snapshot3 (Some 10) = Some self \<and> valid self \<and>
      AudioDevices_str snapshot3 self =
        [CHR 0x0A, CHR 0x09] @ ''0: Speakers'' @
        [CHR 0x0A, CHR 0x09] @ ''1: Headphones'' @
        [CHR 0x0A, CHR 0x09] @ ''2: HDMI'')"
proof -
  have u: "[0..<length [10, 20, 30::nat]] = [0, 1, 2]"
    by (simp add: upt_rec)
  from render_listing [OF linked_snapshot3, unfolded u] linked_snapshot3 show ?thesis
    by (simp add: snapshot3_def str_int_def)
qed

text \<open>
  Claim C10, where the code departs from it. A library file with no \<open>playlists\<close> entry
  is parsed into a library whose \<open>playlists\<close> is the list \<open>[]\<close>; on a controller with
  that library, \<open>play\<close>, \<open>queue\<close> and \<open>queue_repeat\<close> of a name that is neither a
  playlist nor a song raise \<open>AttributeError\<close>, not \<open>NotFoundException\<close>. The state they
  leave is the state before.
\<close>

theorem unknown_name_on_bare_library:
  "parse_v1 (\<lambda>u. True) bare_primitive = Inr bare_library \<and>
   \<not> contains (playlists bare_library) ''nope'' \<and> song_map bare_library ''nope'' = None \<and>
   play (\<lambda>u. True) ''nope'' (controller0\<lparr>media_library := bare_library\<rparr>, heap0) =
     (Inl AttributeError, (controller0\<lparr>media_library := bare_library\<rparr>, heap0)) \<and>
   queue (\<lambda>u. True) ''nope'' (controller0\<lparr>media_library := bare_library\<rparr>, heap0) =
     (Inl AttributeError, (controller0\<lparr>media_library := bare_library\<rparr>, heap0)) \<and>
   queue_repeat (\<lambda>u. True) ''nope'' None (controller0\<lparr>media_library := bare_library\<rparr>, heap0) =
     (Inl AttributeError, (controller0\<lparr>media_library := bare_library\<rparr>, heap0))"
proof -
  have g: "get (\<lambda>u. True) (media_library (controller0\<lparr>media_library := bare_library\<rparr>)) ''nope'' =
             Inl AttributeError"
    by (simp add: get_playlists_list [of _ "[]"] bare_library_def)
  have "\<not> contains (playlists bare_library) ''nope''" "song_map bare_library ''nope'' = None"
    by (simp_all add: bare_library_def contains_def)
  with raise_in_get_leaves_state [OF g, of heap0 None] parse_v1_bare show ?thesis
    by (simp del: play.simps queue.simps queue_repeat.simps)
qed

end
